theory Spec2Isabelle
  imports Main "HOL-Library.Sublist"
begin

section \<open>JavaScript values\<close>

text \<open>
  The worker is TypeScript; the values its handlers touch are JavaScript numbers (the
  operands of the arithmetic tools), strings, and the loosely typed documents that
  \<^verbatim>\<open>response.json()\<close> yields. The IEEE arithmetic of the language and its
  number-to-string conversion are primitives of the platform, not code of the repository:
  the model takes them as a record of operations over a carrier \<open>'n\<close>, and every theorem
  holds for every interpretation of that record.
\<close>

record 'n number_ops =
  num_add :: "'n \<Rightarrow> 'n \<Rightarrow> 'n"       \<comment> \<open>\<^verbatim>\<open>a + b\<close> on numbers\<close>
  num_sub :: "'n \<Rightarrow> 'n \<Rightarrow> 'n"       \<comment> \<open>\<^verbatim>\<open>a - b\<close>\<close>
  num_mul :: "'n \<Rightarrow> 'n \<Rightarrow> 'n"       \<comment> \<open>\<^verbatim>\<open>a * b\<close>\<close>
  num_div :: "'n \<Rightarrow> 'n \<Rightarrow> 'n"       \<comment> \<open>\<^verbatim>\<open>a / b\<close>\<close>
  num_is_zero :: "'n \<Rightarrow> bool"        \<comment> \<open>\<^verbatim>\<open>x === 0\<close>: holds of both signed zeros\<close>
  num_is_nan :: "'n \<Rightarrow> bool"         \<comment> \<open>\<^verbatim>\<open>Number.isNaN(x)\<close>\<close>
  num_to_string :: "'n \<Rightarrow> string"    \<comment> \<open>\<^verbatim>\<open>String(x)\<close> on a number\<close>

datatype js_error = TypeError | NetworkError | SyntaxError

datatype 'n jsval =
    JUndefined
  | JNull
  | JBool bool
  | JNumber 'n
  | JString string
  | JArray "'n jsval list"
  | JObject "(string \<times> 'n jsval) list"

text \<open>
  An object is the list of its own properties; a name is looked up with \<open>map_of\<close>.
\<close>

fun truthy :: "'n number_ops \<Rightarrow> 'n jsval \<Rightarrow> bool" where
  "truthy ops JUndefined = False"
| "truthy ops JNull = False"
| "truthy ops (JBool b) = b"
| "truthy ops (JNumber n) = (\<not> num_is_zero ops n \<and> \<not> num_is_nan ops n)"
| "truthy ops (JString s) = (s \<noteq> [])"
| "truthy ops (JArray xs) = True"
| "truthy ops (JObject fs) = True"

definition js_or :: "'n number_ops \<Rightarrow> 'n jsval \<Rightarrow> 'n jsval \<Rightarrow> 'n jsval" where
  \<comment> \<open>\<^verbatim>\<open>a || b\<close>\<close>
  "js_or ops a b = (if truthy ops a then a else b)"

fun nullish :: "'n jsval \<Rightarrow> bool" where
  "nullish JUndefined = True"
| "nullish JNull = True"
| "nullish v = False"

fun get_prop :: "'n jsval \<Rightarrow> string \<Rightarrow> js_error + 'n jsval" where
  \<comment> \<open>\<^verbatim>\<open>v.name\<close>, for the names the handlers read (\<^verbatim>\<open>data\<close>, \<^verbatim>\<open>url\<close>, \<^verbatim>\<open>price\<close>):
      none of them is inherited from a prototype, so only an object's own property
      can answer; reading a property of \<^verbatim>\<open>null\<close> or \<^verbatim>\<open>undefined\<close> throws.\<close>
  "get_prop JUndefined name = Inl TypeError"
| "get_prop JNull name = Inl TypeError"
| "get_prop (JObject fs) name = Inr (case map_of fs name of None \<Rightarrow> JUndefined | Some v \<Rightarrow> v)"
| "get_prop v name = Inr JUndefined"

fun index0 :: "'n jsval \<Rightarrow> js_error + 'n jsval" where
  \<comment> \<open>\<^verbatim>\<open>v[0]\<close>: the first element of an array, the first character of a string,
      the property named \<^verbatim>\<open>"0"\<close> of an object.\<close>
  "index0 JUndefined = Inl TypeError"
| "index0 JNull = Inl TypeError"
| "index0 (JArray xs) = Inr (case xs of [] \<Rightarrow> JUndefined | x # _ \<Rightarrow> x)"
| "index0 (JString s) = Inr (case s of [] \<Rightarrow> JUndefined | c # _ \<Rightarrow> JString [c])"
| "index0 (JObject fs) = Inr (case map_of fs ''0'' of None \<Rightarrow> JUndefined | Some v \<Rightarrow> v)"
| "index0 v = Inr JUndefined"

fun js_String :: "'n number_ops \<Rightarrow> 'n jsval \<Rightarrow> js_error + string"
  and join_elems :: "'n number_ops \<Rightarrow> 'n jsval list \<Rightarrow> js_error + string" where
  \<comment> \<open>\<^verbatim>\<open>String(v)\<close>. An array is joined with commas, \<^verbatim>\<open>null\<close> and \<^verbatim>\<open>undefined\<close>
      elements rendering as the empty string. A parsed object has no callable property;
      one that carries its own \<^verbatim>\<open>toString\<close> cannot be made primitive.\<close>
  "js_String ops JUndefined = Inr ''undefined''"
| "js_String ops JNull = Inr ''null''"
| "js_String ops (JBool b) = Inr (if b then ''true'' else ''false'')"
| "js_String ops (JNumber n) = Inr (num_to_string ops n)"
| "js_String ops (JString s) = Inr s"
| "js_String ops (JArray xs) = join_elems ops xs"
| "js_String ops (JObject fs) =
     (if map_of fs ''toString'' = None then Inr ''[object Object]'' else Inl TypeError)"
| "join_elems ops [] = Inr ''''"
| "join_elems ops (x # xs) =
     (case (if nullish x then Inr '''' else js_String ops x) of
        Inl e \<Rightarrow> Inl e
      | Inr s \<Rightarrow>
          (if xs = [] then Inr s
           else (case join_elems ops xs of
                   Inl e \<Rightarrow> Inl e
                 | Inr t \<Rightarrow> Inr (s @ '','' @ t))))"

section \<open>Tool results\<close>

text \<open>
  A handler answers with \<^verbatim>\<open>{ content: [{ type, text }, ...] }\<close>. The \<^verbatim>\<open>text\<close> of the
  search tool is whatever the upstream document holds, so an item carries a value.
  A handler is an \<^verbatim>\<open>async\<close> function: it either resolves with its content (\<open>Inr\<close>)
  or rejects with an exception (\<open>Inl\<close>).
\<close>

datatype 'n content_item = ContentItem (item_type: string) (item_text: "'n jsval")

type_synonym 'n tool_result = "'n content_item list"

definition text_item :: "string \<Rightarrow> 'n content_item" where
  "text_item s = ContentItem ''text'' (JString s)"

text \<open>
  The items the handlers write as literals are \<^verbatim>\<open>{ type: "text", text: "..." }\<close> with a
  string text; \<open>string_item\<close> says that of an item.
\<close>

fun is_string :: "'n jsval \<Rightarrow> bool" where
  "is_string (JString s) = True"
| "is_string v = False"

definition string_item :: "'n content_item \<Rightarrow> bool" where
  "string_item i = (item_type i = ''text'' \<and> is_string (item_text i))"

section \<open>The arithmetic tools\<close>

datatype operation = Add | Subtract | Multiply | Divide

definition add :: "'n number_ops \<Rightarrow> 'n \<Rightarrow> 'n \<Rightarrow> js_error + 'n tool_result" where
  "add ops a b = Inr [text_item (num_to_string ops (num_add ops a b))]"

fun calculate :: "'n number_ops \<Rightarrow> operation \<Rightarrow> 'n \<Rightarrow> 'n \<Rightarrow> js_error + 'n tool_result" where
  "calculate ops Add a b = Inr [text_item (num_to_string ops (num_add ops a b))]"
| "calculate ops Subtract a b = Inr [text_item (num_to_string ops (num_sub ops a b))]"
| "calculate ops Multiply a b = Inr [text_item (num_to_string ops (num_mul ops a b))]"
| "calculate ops Divide a b =
     (if num_is_zero ops b then Inr [text_item ''Error: Cannot divide by zero'']
      else Inr [text_item (num_to_string ops (num_div ops a b))])"

section \<open>The outbound transport\<close>

text \<open>
  The two Firecrawl tools call the platform's \<^verbatim>\<open>fetch\<close>. A request is what the handler
  passes to it; \<open>req_body\<close> is the value handed to \<^verbatim>\<open>JSON.stringify\<close>. The transport is
  a parameter: it answers each request with a rejection (a network fault) or with a
  response, whose \<^verbatim>\<open>json()\<close> either rejects or yields the parsed document. Every call is
  taken to settle. A handler returns its outcome together with the requests it sent.
\<close>

record 'n http_request =
  req_url :: string
  req_method :: string
  req_headers :: "(string \<times> string) list"
  req_body :: "'n jsval"

record 'n http_response =
  status :: nat
  json :: "js_error + 'n jsval"

datatype 'n fetch_outcome = Rejected js_error | Resolved "'n http_response"

type_synonym 'n transport = "'n http_request \<Rightarrow> 'n fetch_outcome"

definition ok :: "'n http_response \<Rightarrow> bool" where
  \<comment> \<open>\<^verbatim>\<open>response.ok\<close>: the status is in the range 200 to 299.\<close>
  "ok r = (200 \<le> status r \<and> status r \<le> 299)"

definition key_missing :: "string option \<Rightarrow> bool" where
  \<comment> \<open>\<^verbatim>\<open>!firecrawlApiKey\<close>: the variable is undefined or the empty string.\<close>
  "key_missing k = (case k of None \<Rightarrow> True | Some s \<Rightarrow> s = [])"

definition template :: "string option \<Rightarrow> string" where
  \<comment> \<open>a string or \<^verbatim>\<open>undefined\<close> inside a template literal\<close>
  "template k = (case k of None \<Rightarrow> ''undefined'' | Some s \<Rightarrow> s)"

definition firecrawlApiHeaders :: "string option \<Rightarrow> (string \<times> string) list" where
  "firecrawlApiHeaders firecrawlApiKey =
     [(''Content-Type'', ''application/json''),
      (''Authorization'', ''Bearer '' @ template firecrawlApiKey)]"

definition promise_all :: "'n fetch_outcome \<Rightarrow> 'n fetch_outcome
    \<Rightarrow> js_error + ('n http_response \<times> 'n http_response)" where
  \<comment> \<open>\<^verbatim>\<open>await Promise.all([p, q])\<close>: both calls are already started; the first
      rejection, in array order here, rejects the pair.\<close>
  "promise_all p q =
     (case p of
        Rejected e \<Rightarrow> Inl e
      | Resolved r1 \<Rightarrow> (case q of Rejected e \<Rightarrow> Inl e | Resolved r2 \<Rightarrow> Inr (r1, r2)))"

section \<open>find_product_urls\<close>

definition walmart_request :: "string option \<Rightarrow> string \<Rightarrow> 'n http_request" where
  "walmart_request firecrawlApiKey productName =
     \<lparr> req_url = ''https://api.firecrawl.dev/v0/search'',
       req_method = ''POST'',
       req_headers = firecrawlApiHeaders firecrawlApiKey,
       req_body = JObject [(''query'', JString (''site:walmart.com '' @ productName))] \<rparr>"

definition target_request :: "string option \<Rightarrow> string \<Rightarrow> 'n http_request" where
  "target_request firecrawlApiKey productName =
     \<lparr> req_url = ''https://api.firecrawl.dev/v0/search'',
       req_method = ''POST'',
       req_headers = firecrawlApiHeaders firecrawlApiKey,
       req_body = JObject [(''query'', JString (''site:target.com '' @ productName))] \<rparr>"

definition first_url :: "'n jsval \<Rightarrow> js_error + 'n jsval" where
  \<comment> \<open>\<^verbatim>\<open>d.data?.[0]?.url\<close>: a nullish link ends the whole chain with \<^verbatim>\<open>undefined\<close>.\<close>
  "first_url d =
     (case get_prop d ''data'' of
        Inl e \<Rightarrow> Inl e
      | Inr a \<Rightarrow>
          (if nullish a then Inr JUndefined
           else (case index0 a of
                   Inl e \<Rightarrow> Inl e
                 | Inr b \<Rightarrow> (if nullish b then Inr JUndefined else get_prop b ''url''))))"

definition find_product_urls_try :: "'n number_ops \<Rightarrow> 'n fetch_outcome \<Rightarrow> 'n fetch_outcome
    \<Rightarrow> js_error + 'n tool_result" where
  \<comment> \<open>the body of the \<^verbatim>\<open>try\<close> block, given the outcomes of the two calls\<close>
  "find_product_urls_try ops walmartFetch targetFetch =
     (case promise_all walmartFetch targetFetch of
        Inl e \<Rightarrow> Inl e
      | Inr (walmartResponse, targetResponse) \<Rightarrow>
          (if \<not> ok walmartResponse \<or> \<not> ok targetResponse
           then Inr [text_item ''Error fetching data from Firecrawl.'']
           else (case json walmartResponse of
                   Inl e \<Rightarrow> Inl e
                 | Inr walmartData \<Rightarrow>
             (case json targetResponse of
                   Inl e \<Rightarrow> Inl e
                 | Inr targetData \<Rightarrow>
             (case first_url walmartData of
                   Inl e \<Rightarrow> Inl e
                 | Inr wu \<Rightarrow>
             (case first_url targetData of
                   Inl e \<Rightarrow> Inl e
                 | Inr tu \<Rightarrow>
                     Inr [ContentItem ''text'' (js_or ops wu (JString ''Walmart URL Not Found'')),
                          ContentItem ''text'' (js_or ops tu (JString ''Target URL Not Found''))]))))))"

definition find_product_urls :: "'n number_ops \<Rightarrow> string option \<Rightarrow> 'n transport \<Rightarrow> string
    \<Rightarrow> (js_error + 'n tool_result) \<times> 'n http_request list" where
  "find_product_urls ops firecrawlApiKey fetch productName =
     (if key_missing firecrawlApiKey
      then (Inr [text_item ''Error: Firecrawl API key is not configured.''], [])
      else
        (let walmartReq = walmart_request firecrawlApiKey productName;
             targetReq = target_request firecrawlApiKey productName
         in ((case find_product_urls_try ops (fetch walmartReq) (fetch targetReq) of
                Inl error \<Rightarrow> Inr [text_item ''An unexpected error occurred.'']
              | Inr result \<Rightarrow> Inr result),
             [walmartReq, targetReq])))"

section \<open>extract_product_price\<close>

definition extract_request :: "string option \<Rightarrow> string \<Rightarrow> 'n http_request" where
  "extract_request firecrawlApiKey productUrl =
     \<lparr> req_url = ''https://api.firecrawl.dev/v0/extract'',
       req_method = ''POST'',
       req_headers = firecrawlApiHeaders firecrawlApiKey,
       req_body =
         JObject
          [(''url'', JString productUrl),
           (''extractor'',
            JObject
             [(''mode'', JString ''llm-extraction''),
              (''extraction_schema'',
               JObject
                [(''type'', JString ''object''),
                 (''properties'',
                  JObject
                   [(''price'',
                     JObject
                      [(''type'', JString ''string''),
                       (''description'',
                        JString ''The numerical price of the product, without currency symbols.'')])]),
                 (''required'', JArray [JString ''price''])])])] \<rparr>"

definition data_price :: "'n jsval \<Rightarrow> js_error + 'n jsval" where
  \<comment> \<open>\<^verbatim>\<open>d.data?.price\<close>\<close>
  "data_price d =
     (case get_prop d ''data'' of
        Inl e \<Rightarrow> Inl e
      | Inr a \<Rightarrow> (if nullish a then Inr JUndefined else get_prop a ''price''))"

definition extract_product_price_try :: "'n number_ops \<Rightarrow> 'n fetch_outcome
    \<Rightarrow> js_error + 'n tool_result" where
  \<comment> \<open>the body of the \<^verbatim>\<open>try\<close> block, given the outcome of the call\<close>
  "extract_product_price_try ops extractFetch =
     (case extractFetch of
        Rejected e \<Rightarrow> Inl e
      | Resolved response \<Rightarrow>
          (if \<not> ok response then Inr [text_item ''Error extracting price from URL.'']
           else (case json response of
                   Inl e \<Rightarrow> Inl e
                 | Inr extractedData \<Rightarrow>
             (case data_price extractedData of
                   Inl e \<Rightarrow> Inl e
                 | Inr p \<Rightarrow>
             (case js_String ops (js_or ops p (JString ''Price not found'')) of
                   Inl e \<Rightarrow> Inl e
                 | Inr s \<Rightarrow> Inr [text_item s])))))"

definition extract_product_price :: "'n number_ops \<Rightarrow> string option \<Rightarrow> 'n transport \<Rightarrow> string
    \<Rightarrow> (js_error + 'n tool_result) \<times> 'n http_request list" where
  "extract_product_price ops firecrawlApiKey fetch productUrl =
     (if key_missing firecrawlApiKey
      then (Inr [text_item ''Error: Firecrawl API key is not configured.''], [])
      else
        (let extractReq = extract_request firecrawlApiKey productUrl
         in ((case extract_product_price_try ops (fetch extractReq) of
                Inl error \<Rightarrow>
                  Inr [text_item ''An unexpected error occurred while extracting the price.'']
              | Inr result \<Rightarrow> Inr result),
             [extractReq])))"

section \<open>The worker's entry point\<close>

text \<open>
  The inbound request as the entry point reads it: its method (the field \<open>method'\<close>,
  since \<open>method\<close> is a reserved word), the path of its URL and its headers
  (\<^verbatim>\<open>request.headers.get\<close>, by lower-case name). The entry point answers
  with a response of its own or hands the request to the SDK's server for one of the two
  endpoints, which is where tools are dispatched.
\<close>

record request =
  method' :: string
  pathname :: string
  headers :: "string \<rightharpoonup> string"

record env =
  FIRECRAWL_API_KEY :: "string option"
  MCP_API_KEY :: "string option"

datatype fetch_result =
    Response (resp_body: string) (resp_status: nat) (resp_headers: "(string \<times> string) list")
  | ServeSSE
  | ServeMCP

fun replace_first :: "string \<Rightarrow> string \<Rightarrow> string \<Rightarrow> string" where
  \<comment> \<open>\<^verbatim>\<open>s.replace(pat, rep)\<close> with a string pattern: the first occurrence only\<close>
  "replace_first pat rep [] = (if pat = [] then rep else [])"
| "replace_first pat rep (c # cs) =
     (if prefix pat (c # cs) then rep @ drop (length pat) (c # cs)
      else c # replace_first pat rep cs)"

definition route :: "request \<Rightarrow> fetch_result" where
  \<comment> \<open>the three exits both variants of the entry point end with\<close>
  "route request =
     (if pathname request = ''/sse'' \<or> prefix ''/sse/'' (pathname request) then ServeSSE
      else if pathname request = ''/mcp'' then ServeMCP
      else Response ''Not found'' 404 [])"

definition presented_key :: "request \<Rightarrow> string option" where
  \<comment> \<open>\<^verbatim>\<open>headers.get('api-key') || headers.get('authorization')?.replace('Bearer ', '')\<close>:
      \<^verbatim>\<open>null\<close> and the empty string are falsy; an absent authorization header leaves
      \<^verbatim>\<open>undefined\<close> (\<open>None\<close>).\<close>
  "presented_key request =
     (case headers request ''api-key'' of
        Some k \<Rightarrow>
          (if k \<noteq> [] then Some k
           else map_option (replace_first ''Bearer '' []) (headers request ''authorization''))
      | None \<Rightarrow> map_option (replace_first ''Bearer '' []) (headers request ''authorization''))"

definition unauthorized :: fetch_result where
  "unauthorized =
     Response ''Unauthorized: Invalid or missing API key'' 401
       [(''Access-Control-Allow-Origin'', ''*''),
        (''Access-Control-Allow-Headers'', ''Content-Type, api-key, Authorization''),
        (''Access-Control-Allow-Methods'', ''GET, POST, OPTIONS'')]"

definition fetch_open :: "request \<Rightarrow> fetch_result" where
  \<comment> \<open>the first variant: no inbound check\<close>
  "fetch_open request = route request"

definition fetch_gated :: "request \<Rightarrow> env \<Rightarrow> fetch_result" where
  \<comment> \<open>the second variant\<close>
  "fetch_gated request env =
     (let apiKey = presented_key request;
          expectedApiKey = MCP_API_KEY env
      in if method' request \<noteq> ''OPTIONS'' \<and> apiKey \<noteq> expectedApiKey then unauthorized
         else route request)"

section \<open>Concrete inputs\<close>

text \<open>
  To run the model, the number primitives are read over the integers, where JavaScript's
  results are exact as long as they are integers below \<open>2^53\<close> (the inputs used here
  divide evenly), and the transport is a stub that answers the Walmart search, the
  Target search and the extraction call with three fixed outcomes.
\<close>

definition digit :: "nat \<Rightarrow> char" where
  "digit d =
     (if d = 0 then CHR ''0'' else if d = 1 then CHR ''1'' else if d = 2 then CHR ''2''
      else if d = 3 then CHR ''3'' else if d = 4 then CHR ''4'' else if d = 5 then CHR ''5''
      else if d = 6 then CHR ''6'' else if d = 7 then CHR ''7'' else if d = 8 then CHR ''8''
      else CHR ''9'')"

fun decimal :: "nat \<Rightarrow> string" where
  "decimal n = (if n < 10 then [digit n] else decimal (n div 10) @ [digit (n mod 10)])"

definition int_to_string :: "int \<Rightarrow> string" where
  "int_to_string i = (if i < 0 then CHR ''-'' # decimal (nat (- i)) else decimal (nat i))"

definition int_ops :: "int number_ops" where
  "int_ops =
     \<lparr> num_add = (+), num_sub = (-), num_mul = (*), num_div = (div),
       num_is_zero = (\<lambda>x. x = 0), num_is_nan = (\<lambda>x. False),
       num_to_string = int_to_string \<rparr>"

definition stub :: "string \<Rightarrow> 'n fetch_outcome \<Rightarrow> 'n fetch_outcome \<Rightarrow> 'n fetch_outcome
    \<Rightarrow> 'n transport" where
  "stub productName walmart target extract req =
     (if req_url req = ''https://api.firecrawl.dev/v0/search''
      then (if req_body req = JObject [(''query'', JString (''site:walmart.com '' @ productName))]
            then walmart else target)
      else extract)"

definition reply :: "nat \<Rightarrow> 'n jsval \<Rightarrow> 'n fetch_outcome" where
  "reply st doc = Resolved \<lparr> status = st, json = Inr doc \<rparr>"

definition search_doc :: "'n jsval \<Rightarrow> 'n jsval" where
  \<comment> \<open>\<^verbatim>\<open>{"data": [{"url": u}]}\<close>\<close>
  "search_doc u = JObject [(''data'', JArray [JObject [(''url'', u)]])]"

definition extract_doc :: "'n jsval \<Rightarrow> 'n jsval" where
  \<comment> \<open>\<^verbatim>\<open>{"data": {"price": p}}\<close>\<close>
  "extract_doc p = JObject [(''data'', JObject [(''price'', p)])]"

definition post :: "string \<Rightarrow> (string \<rightharpoonup> string) \<Rightarrow> request" where
  "post path hs = \<lparr> method' = ''POST'', pathname = path, headers = hs \<rparr>"

section \<open>Evaluating the concrete inputs\<close>

lemma int_ops_simps:
  "num_add int_ops = (+)" "num_sub int_ops = (-)" "num_mul int_ops = (*)"
  "num_div int_ops = (div)" "num_is_zero int_ops x = (x = 0)"
  "num_is_nan int_ops x = False" "num_to_string int_ops = int_to_string"
  by (simp_all add: int_ops_def)

lemma stub_simps:
  "stub n w t x (walmart_request k n) = w"
  "stub n w t x (target_request k n) = t"
  "stub n w t x (extract_request k u) = x"
  by (simp_all add: stub_def walmart_request_def target_request_def extract_request_def)

section \<open>Reading the upstream documents\<close>


lemma data_price_of_object:
  assumes "map_of f ''data'' = Some (JObject d)"
    and "map_of d ''price'' = Some p"
  shows "data_price (JObject f) = Inr p"
  using assms by (simp add: data_price_def)

text \<open>
  The path through \<open>find_product_urls\<close> on which both calls resolve with a success
  status and both documents can be read.
\<close>

lemma find_product_urls_both_ok:
  assumes "\<not> key_missing k"
    and "fetch (walmart_request k productName) = Resolved rw"
    and "fetch (target_request k productName) = Resolved rt"
    and "ok rw" and "ok rt"
    and "json rw = Inr dw" and "json rt = Inr dt"
    and "first_url dw = Inr uw" and "first_url dt = Inr ut"
  shows "fst (find_product_urls ops k fetch productName) =
           Inr [ContentItem ''text'' (js_or ops uw (JString ''Walmart URL Not Found'')),
                ContentItem ''text'' (js_or ops ut (JString ''Target URL Not Found''))]"
  using assms
  by (simp add: find_product_urls_def find_product_urls_try_def promise_all_def Let_def)

lemma extract_product_price_ok:
  assumes "\<not> key_missing k"
    and "fetch (extract_request k productUrl) = Resolved rx"
    and "ok rx"
    and "json rx = Inr dx"
    and "data_price dx = Inr p"
    and "js_String ops (js_or ops p (JString ''Price not found'')) = Inr s"
  shows "fst (extract_product_price ops k fetch productUrl) = Inr [text_item s]"
  using assms
  by (simp add: extract_product_price_def extract_product_price_try_def Let_def)

section \<open>Every handler resolves\<close>

lemma string_item_text_item: "string_item (text_item s)"
  by (simp add: string_item_def text_item_def)








section \<open>The claims\<close>

text \<open>
  C1. \<open>calculate\<close> with operation \<open>divide\<close>: when \<open>b\<close> is not zero the handler resolves
  with a single text item holding the quotient \<^verbatim>\<open>a / b\<close> rendered by \<^verbatim>\<open>String\<close>; when
  \<open>b\<close> is zero (the test \<^verbatim>\<open>b === 0\<close>) it resolves with the single fixed text
  \<^verbatim>\<open>Error: Cannot divide by zero\<close>. In both cases it resolves (\<open>Inr\<close>): nothing is thrown.
\<close>

theorem calculate_divide:
  "(\<not> num_is_zero ops b \<longrightarrow>
      calculate ops Divide a b = Inr [text_item (num_to_string ops (num_div ops a b))])
   \<and> (num_is_zero ops b \<longrightarrow>
      calculate ops Divide a b = Inr [text_item ''Error: Cannot divide by zero''])"
  by simp

theorem calculate_divide_witness:
  "\<not> num_is_zero int_ops 3
   \<and> calculate int_ops Divide 6 3 = Inr [text_item ''2'']
   \<and> num_is_zero int_ops 0
   \<and> calculate int_ops Divide 6 0 = Inr [text_item ''Error: Cannot divide by zero'']"
  using calculate_divide [of int_ops 3 6] calculate_divide [of int_ops 0 6]
  by (simp add: int_ops_simps int_to_string_def digit_def)

text \<open>
  C2. The gated entry point. A request whose method is not \<^verbatim>\<open>OPTIONS\<close> and whose presented
  key differs from the configured \<^verbatim>\<open>MCP_API_KEY\<close> is answered with the fixed 401 response
  carrying the three CORS headers, and is handed to neither endpoint of the SDK, so no
  tool handler runs. A request whose method is \<^verbatim>\<open>OPTIONS\<close> is routed whatever key it
  presents. The presented key is the non-empty \<^verbatim>\<open>api-key\<close> header when there is one,
  and otherwise the \<^verbatim>\<open>authorization\<close> header without its \<^verbatim>\<open>Bearer\<close> prefix.
  Both the presented key and the configured one may be undefined (\<open>None\<close>), and two
  undefined values do not differ.
\<close>

theorem gate_rejects_mismatch:
  "(method' request \<noteq> ''OPTIONS'' \<and> presented_key request \<noteq> MCP_API_KEY env \<longrightarrow>
      fetch_gated request env =
        Response ''Unauthorized: Invalid or missing API key'' 401
          [(''Access-Control-Allow-Origin'', ''*''),
           (''Access-Control-Allow-Headers'', ''Content-Type, api-key, Authorization''),
           (''Access-Control-Allow-Methods'', ''GET, POST, OPTIONS'')]
      \<and> fetch_gated request env \<noteq> ServeSSE \<and> fetch_gated request env \<noteq> ServeMCP)
   \<and> (method' request = ''OPTIONS'' \<longrightarrow> fetch_gated request env = route request)
   \<and> (headers request ''api-key'' = Some k \<and> k \<noteq> [] \<longrightarrow> presented_key request = Some k)
   \<and> (headers request ''api-key'' = None
        \<and> headers request ''authorization'' = Some (''Bearer '' @ t) \<longrightarrow>
      presented_key request = Some t)"
  by (simp add: fetch_gated_def unauthorized_def presented_key_def Let_def)

theorem gate_rejects_mismatch_witness:
  "method' (post ''/mcp'' [''api-key'' \<mapsto> ''guess'']) \<noteq> ''OPTIONS''
   \<and> presented_key (post ''/mcp'' [''api-key'' \<mapsto> ''guess'']) = Some ''guess''
   \<and> resp_status (fetch_gated (post ''/mcp'' [''api-key'' \<mapsto> ''guess''])
        \<lparr> FIRECRAWL_API_KEY = Some ''fc-key'', MCP_API_KEY = Some ''s3cret'' \<rparr>) = 401
   \<and> presented_key (post ''/mcp'' [''authorization'' \<mapsto> ''Bearer guess'']) = Some ''guess''
   \<and> resp_status (fetch_gated (post ''/mcp'' [''authorization'' \<mapsto> ''Bearer guess''])
        \<lparr> FIRECRAWL_API_KEY = Some ''fc-key'', MCP_API_KEY = Some ''s3cret'' \<rparr>) = 401
   \<and> method' ((post ''/mcp'' [''api-key'' \<mapsto> ''guess'']) \<lparr> method' := ''OPTIONS'' \<rparr>) = ''OPTIONS''
   \<and> fetch_gated ((post ''/mcp'' [''api-key'' \<mapsto> ''guess'']) \<lparr> method' := ''OPTIONS'' \<rparr>)
        \<lparr> FIRECRAWL_API_KEY = Some ''fc-key'', MCP_API_KEY = Some ''s3cret'' \<rparr> = ServeMCP"
  using gate_rejects_mismatch [of "post ''/mcp'' [''api-key'' \<mapsto> ''guess'']"
        "\<lparr> FIRECRAWL_API_KEY = Some ''fc-key'', MCP_API_KEY = Some ''s3cret'' \<rparr>"
        "''guess''" "''guess''"]
    gate_rejects_mismatch [of "post ''/mcp'' [''authorization'' \<mapsto> ''Bearer guess'']"
        "\<lparr> FIRECRAWL_API_KEY = Some ''fc-key'', MCP_API_KEY = Some ''s3cret'' \<rparr>"
        "''guess''" "''guess''"]
    gate_rejects_mismatch [of
        "(post ''/mcp'' [''api-key'' \<mapsto> ''guess'']) \<lparr> method' := ''OPTIONS'' \<rparr>"
        "\<lparr> FIRECRAWL_API_KEY = Some ''fc-key'', MCP_API_KEY = Some ''s3cret'' \<rparr>"
        "''guess''" "''guess''"]
  by (simp add: post_def route_def)

text \<open>
  C3. \<open>find_product_urls\<close>, when both search calls resolve with a response and at least
  one of the two has a status outside 200 to 299: the handler resolves with exactly one
  text item, \<^verbatim>\<open>Error fetching data from Firecrawl.\<close>, and so with no URL of the other
  call. (That both calls are made presupposes the Firecrawl key.)
\<close>

theorem failed_status_is_one_fetch_error:
  assumes "\<not> key_missing firecrawlApiKey"
    and "fetch (walmart_request firecrawlApiKey productName) = Resolved walmartResponse"
    and "fetch (target_request firecrawlApiKey productName) = Resolved targetResponse"
    and "\<not> ok walmartResponse \<or> \<not> ok targetResponse"
  shows "fst (find_product_urls ops firecrawlApiKey fetch productName) =
           Inr [text_item ''Error fetching data from Firecrawl.'']"
  using assms
  by (auto simp add: find_product_urls_def find_product_urls_try_def promise_all_def Let_def)

theorem failed_status_is_one_fetch_error_witness:
  "\<not> key_missing (Some ''fc-key'')
   \<and> \<not> ok \<lparr> status = 500, json = Inr (JNull :: int jsval) \<rparr>
   \<and> ok \<lparr> status = 200,
          json = Inr (search_doc (JString ''https://www.target.com/p/2'') :: int jsval) \<rparr>
   \<and> fst (find_product_urls int_ops (Some ''fc-key'')
        (stub ''Echo Dot'' (reply 500 JNull)
           (reply 200 (search_doc (JString ''https://www.target.com/p/2'')))
           (Rejected NetworkError))
        ''Echo Dot'')
       = Inr [text_item ''Error fetching data from Firecrawl.'']"
  using failed_status_is_one_fetch_error [of "Some ''fc-key''"
        "stub ''Echo Dot'' (reply 500 JNull)
           (reply 200 (search_doc (JString ''https://www.target.com/p/2'')))
           (Rejected NetworkError)"
        "''Echo Dot''" "\<lparr> status = 500, json = Inr JNull \<rparr>"
        "\<lparr> status = 200, json = Inr (search_doc (JString ''https://www.target.com/p/2'')) \<rparr>"
        int_ops]
  by (simp add: key_missing_def stub_simps reply_def ok_def)

text \<open>
  C4. With no Firecrawl key (the variable is undefined or empty), \<open>find_product_urls\<close>
  and \<open>extract_product_price\<close> both resolve with the single text
  \<^verbatim>\<open>Error: Firecrawl API key is not configured.\<close> and send no request at all.
\<close>

theorem missing_key_short_circuits:
  assumes "key_missing firecrawlApiKey"
  shows "find_product_urls ops firecrawlApiKey fetch productName =
           (Inr [text_item ''Error: Firecrawl API key is not configured.''], [])
       \<and> extract_product_price ops firecrawlApiKey fetch productUrl =
           (Inr [text_item ''Error: Firecrawl API key is not configured.''], [])"
  using assms by (simp add: find_product_urls_def extract_product_price_def)

theorem missing_key_short_circuits_witness:
  "key_missing None
   \<and> find_product_urls int_ops None
        (stub ''Echo Dot'' (reply 200 (search_doc (JString ''https://www.walmart.com/ip/1'')))
           (reply 200 (search_doc (JString ''https://www.target.com/p/2'')))
           (reply 200 (extract_doc (JString ''19.99''))))
        ''Echo Dot''
       = (Inr [text_item ''Error: Firecrawl API key is not configured.''], [])
   \<and> extract_product_price int_ops None
        (stub ''Echo Dot'' (reply 200 (search_doc (JString ''https://www.walmart.com/ip/1'')))
           (reply 200 (search_doc (JString ''https://www.target.com/p/2'')))
           (reply 200 (extract_doc (JString ''19.99''))))
        ''https://example.com/p/123''
       = (Inr [text_item ''Error: Firecrawl API key is not configured.''], [])"
  using missing_key_short_circuits [of None int_ops
        "stub ''Echo Dot'' (reply 200 (search_doc (JString ''https://www.walmart.com/ip/1'')))
           (reply 200 (search_doc (JString ''https://www.target.com/p/2'')))
           (reply 200 (extract_doc (JString ''19.99'')))"
        "''Echo Dot''" "''https://example.com/p/123''"]
  by (simp add: key_missing_def)




text \<open>
  C6, as the code has it. \<open>extract_product_price\<close>, when the extraction call resolves
  with a success status and the document's \<^verbatim>\<open>data\<close> object carries a \<^emph>\<open>truthy\<close>
  \<^verbatim>\<open>price\<close> that \<^verbatim>\<open>String\<close> renders as \<open>s\<close>: the handler resolves with exactly one text
  item, \<open>s\<close>. A non-empty string price is rendered as itself.
\<close>

theorem extract_product_price_truthy:
  assumes "\<not> key_missing firecrawlApiKey"
    and "fetch (extract_request firecrawlApiKey productUrl) = Resolved response"
    and "ok response"
    and "json response = Inr (JObject fx)"
    and "map_of fx ''data'' = Some (JObject dx)"
    and "map_of dx ''price'' = Some price"
    and "truthy ops price"
    and "js_String ops price = Inr s"
  shows "fst (extract_product_price ops firecrawlApiKey fetch productUrl) = Inr [text_item s]"
proof -
  have "data_price (JObject fx) = Inr price"
    using assms(5,6) by (rule data_price_of_object)
  moreover have "js_String ops (js_or ops price (JString ''Price not found'')) = Inr s"
    using assms(7,8) by (simp add: js_or_def)
  ultimately show ?thesis
    using assms(1-4) by (simp add: extract_product_price_ok)
qed

theorem extract_product_price_truthy_witness:
  "\<not> key_missing (Some ''fc-key'')
   \<and> ok \<lparr> status = 200, json = Inr (extract_doc (JString ''19.99'') :: int jsval) \<rparr>
   \<and> truthy int_ops (JString ''19.99'')
   \<and> js_String int_ops (JString ''19.99'') = Inr ''19.99''
   \<and> extract_product_price int_ops (Some ''fc-key'')
        (stub ''Echo Dot'' (Rejected NetworkError) (Rejected NetworkError)
           (reply 200 (extract_doc (JString ''19.99''))))
        ''https://example.com/p/123''
       = (Inr [text_item ''19.99''],
          [extract_request (Some ''fc-key'') ''https://example.com/p/123''])"
  using extract_product_price_truthy [of "Some ''fc-key''"
        "stub ''Echo Dot'' (Rejected NetworkError) (Rejected NetworkError)
           (reply 200 (extract_doc (JString ''19.99'')))"
        "''https://example.com/p/123''"
        "\<lparr> status = 200, json = Inr (extract_doc (JString ''19.99'')) \<rparr>"
        "[(''data'', JObject [(''price'', JString ''19.99'')])]"
        "[(''price'', JString ''19.99'')]"
        "JString ''19.99''" int_ops "''19.99''"]
  by (simp add: key_missing_def stub_simps reply_def ok_def extract_doc_def
      extract_product_price_def Let_def prod_eq_iff)

text \<open>
  C6 as stated fails where the \<^verbatim>\<open>price\<close> field is present but falsy. The call succeeds
  and the document is \<^verbatim>\<open>{"data": {"price": ""}}\<close>: the item is the sentinel
  \<^verbatim>\<open>Price not found\<close>, not the field's string value, which is empty.
\<close>

theorem empty_price_counterexample:
  "\<not> key_missing (Some ''fc-key'')
   \<and> ok \<lparr> status = 200, json = Inr (extract_doc (JString []) :: int jsval) \<rparr>
   \<and> data_price (extract_doc (JString []) :: int jsval) = Inr (JString [])
   \<and> js_String int_ops (JString []) = Inr []
   \<and> fst (extract_product_price int_ops (Some ''fc-key'')
        (stub ''Echo Dot'' (Rejected NetworkError) (Rejected NetworkError)
           (reply 200 (extract_doc (JString []))))
        ''https://example.com/p/123'')
       = Inr [text_item ''Price not found'']
   \<and> fst (extract_product_price int_ops (Some ''fc-key'')
        (stub ''Echo Dot'' (Rejected NetworkError) (Rejected NetworkError)
           (reply 200 (extract_doc (JString []))))
        ''https://example.com/p/123'')
       \<noteq> Inr [text_item []]"
  by (simp add: key_missing_def stub_simps reply_def ok_def extract_doc_def text_item_def
      extract_product_price_def extract_product_price_try_def data_price_def js_or_def Let_def)




text \<open>
  C8. For every pair of numbers, the \<open>add\<close> tool and \<open>calculate\<close> with operation
  \<open>add\<close> give the same result: the single text item holding \<^verbatim>\<open>String(a + b)\<close>.
\<close>

theorem add_agrees_with_calculate:
  "add ops a b = calculate ops Add a b
   \<and> add ops a b = Inr [text_item (num_to_string ops (num_add ops a b))]"
  by (simp add: add_def)

theorem add_agrees_with_calculate_witness:
  "add int_ops 2 3 = calculate int_ops Add 2 3
   \<and> calculate int_ops Add 2 3 = Inr [text_item ''5'']"
  using add_agrees_with_calculate [of int_ops 2 3]
  by (simp add: int_ops_simps int_to_string_def digit_def)

text \<open>
  C9. A field that is present but falsy is replaced by the sentinel, exactly as an absent
  one is. Each part stands on its own.
  \<^item> \<open>extract_product_price\<close>, when the extraction call succeeds and the document's
    \<^verbatim>\<open>data\<close> object has no \<^verbatim>\<open>price\<close> or a falsy one, answers \<^verbatim>\<open>Price not found\<close>.
  \<^item> \<open>find_product_urls\<close>, when both search calls succeed, the first Walmart result has
    no \<^verbatim>\<open>url\<close> or a falsy one, and the Target document can be read (whatever it holds),
    answers with \<^verbatim>\<open>Walmart URL Not Found\<close> as its first item; and symmetrically with
    \<^verbatim>\<open>Target URL Not Found\<close> as its second item.
  \<^item> The empty string, \<^verbatim>\<open>null\<close>, \<^verbatim>\<open>false\<close> and the number zero are falsy.
\<close>

theorem falsy_field_gives_sentinel:
  "(\<not> key_missing k
      \<and> fetch (extract_request k productUrl) = Resolved response \<and> ok response
      \<and> json response = Inr (JObject fx) \<and> map_of fx ''data'' = Some (JObject dx)
      \<and> (map_of dx ''price'' = None \<or> (\<exists>price. map_of dx ''price'' = Some price
            \<and> \<not> truthy ops price))
    \<longrightarrow> fst (extract_product_price ops k fetch productUrl) = Inr [text_item ''Price not found''])
   \<and> (\<not> key_missing k
      \<and> fetch (walmart_request k productName) = Resolved rw
      \<and> fetch (target_request k productName) = Resolved rt \<and> ok rw \<and> ok rt
      \<and> json rw = Inr (JObject fw) \<and> map_of fw ''data'' = Some (JArray (JObject ew # restw))
      \<and> (map_of ew ''url'' = None \<or> (\<exists>url. map_of ew ''url'' = Some url \<and> \<not> truthy ops url))
      \<and> json rt = Inr dt \<and> first_url dt = Inr tu
    \<longrightarrow> fst (find_product_urls ops k fetch productName) =
          Inr [text_item ''Walmart URL Not Found'',
               ContentItem ''text'' (js_or ops tu (JString ''Target URL Not Found''))])
   \<and> (\<not> key_missing k
      \<and> fetch (walmart_request k productName) = Resolved rw
      \<and> fetch (target_request k productName) = Resolved rt \<and> ok rw \<and> ok rt
      \<and> json rt = Inr (JObject ft) \<and> map_of ft ''data'' = Some (JArray (JObject et # restt))
      \<and> (map_of et ''url'' = None \<or> (\<exists>url. map_of et ''url'' = Some url \<and> \<not> truthy ops url))
      \<and> json rw = Inr dw \<and> first_url dw = Inr wu
    \<longrightarrow> fst (find_product_urls ops k fetch productName) =
          Inr [ContentItem ''text'' (js_or ops wu (JString ''Walmart URL Not Found'')),
               text_item ''Target URL Not Found''])
   \<and> \<not> truthy ops (JString []) \<and> \<not> truthy ops JNull \<and> \<not> truthy ops (JBool False)
   \<and> (num_is_zero ops n \<longrightarrow> \<not> truthy ops (JNumber n))"
proof -
  have price: "fst (extract_product_price ops k fetch productUrl)
      = Inr [text_item ''Price not found'']"
    if "\<not> key_missing k" "fetch (extract_request k productUrl) = Resolved response"
      "ok response" "json response = Inr (JObject fx)" "map_of fx ''data'' = Some (JObject dx)"
      "map_of dx ''price'' = None \<or> (\<exists>price. map_of dx ''price'' = Some price
          \<and> \<not> truthy ops price)"
  proof -
    from that(5,6) obtain p where p: "data_price (JObject fx) = Inr p" "\<not> truthy ops p"
      by (auto simp add: data_price_def)
    then have "js_String ops (js_or ops p (JString ''Price not found''))
        = Inr ''Price not found''"
      by (simp add: js_or_def)
    with that(1-4) p(1) show ?thesis
      by (simp add: extract_product_price_ok)
  qed
  have url: "\<exists>u. first_url (JObject f) = Inr u \<and> \<not> truthy ops u"
    if "map_of f ''data'' = Some (JArray (JObject e # rest))"
      "map_of e ''url'' = None \<or> (\<exists>url. map_of e ''url'' = Some url \<and> \<not> truthy ops url)"
    for f e rest
    using that by (auto simp add: first_url_def)
  have walmart: "fst (find_product_urls ops k fetch productName) =
        Inr [text_item ''Walmart URL Not Found'',
             ContentItem ''text'' (js_or ops tu (JString ''Target URL Not Found''))]"
    if "\<not> key_missing k" "fetch (walmart_request k productName) = Resolved rw"
      "fetch (target_request k productName) = Resolved rt" "ok rw" "ok rt"
      "json rw = Inr (JObject fw)" "map_of fw ''data'' = Some (JArray (JObject ew # restw))"
      "map_of ew ''url'' = None \<or> (\<exists>url. map_of ew ''url'' = Some url \<and> \<not> truthy ops url)"
      "json rt = Inr dt" "first_url dt = Inr tu"
  proof -
    from url [OF that(7,8)] obtain u where u: "first_url (JObject fw) = Inr u" "\<not> truthy ops u"
      by blast
    from that(1-6) that(9) u(1) that(10)
    have "fst (find_product_urls ops k fetch productName) =
        Inr [ContentItem ''text'' (js_or ops u (JString ''Walmart URL Not Found'')),
             ContentItem ''text'' (js_or ops tu (JString ''Target URL Not Found''))]"
      by (rule find_product_urls_both_ok)
    with u(2) show ?thesis by (simp add: js_or_def text_item_def)
  qed
  have target: "fst (find_product_urls ops k fetch productName) =
        Inr [ContentItem ''text'' (js_or ops wu (JString ''Walmart URL Not Found'')),
             text_item ''Target URL Not Found'']"
    if "\<not> key_missing k" "fetch (walmart_request k productName) = Resolved rw"
      "fetch (target_request k productName) = Resolved rt" "ok rw" "ok rt"
      "json rt = Inr (JObject ft)" "map_of ft ''data'' = Some (JArray (JObject et # restt))"
      "map_of et ''url'' = None \<or> (\<exists>url. map_of et ''url'' = Some url \<and> \<not> truthy ops url)"
      "json rw = Inr dw" "first_url dw = Inr wu"
  proof -
    from url [OF that(7,8)] obtain u where u: "first_url (JObject ft) = Inr u" "\<not> truthy ops u"
      by blast
    from that(1-5) that(9) that(6) that(10) u(1)
    have "fst (find_product_urls ops k fetch productName) =
        Inr [ContentItem ''text'' (js_or ops wu (JString ''Walmart URL Not Found'')),
             ContentItem ''text'' (js_or ops u (JString ''Target URL Not Found''))]"
      by (rule find_product_urls_both_ok)
    with u(2) show ?thesis by (simp add: js_or_def text_item_def)
  qed
  from price walmart target show ?thesis
    by simp
qed

theorem falsy_field_gives_sentinel_witness:
  "\<not> key_missing (Some ''fc-key'')
   \<and> num_is_zero int_ops 0 \<and> \<not> truthy int_ops (JNumber 0)
   \<and> fst (extract_product_price int_ops (Some ''fc-key'')
        (stub ''Echo Dot'' (Rejected NetworkError) (Rejected NetworkError)
           (reply 200 (extract_doc (JNumber 0))))
        ''https://example.com/p/123'')
       = Inr [text_item ''Price not found'']
   \<and> fst (extract_product_price int_ops (Some ''fc-key'')
        (stub ''Echo Dot'' (Rejected NetworkError) (Rejected NetworkError)
           (reply 200 (JObject [(''data'', JObject [])])))
        ''https://example.com/p/123'')
       = Inr [text_item ''Price not found'']
   \<and> \<not> truthy int_ops (JString [])
   \<and> first_url (JObject [(''data'', JArray [])] :: int jsval) = Inr JUndefined
   \<and> fst (find_product_urls int_ops (Some ''fc-key'')
        (stub ''Echo Dot'' (reply 200 (search_doc (JString [])))
           (reply 200 (JObject [(''data'', JArray [])]))
           (Rejected NetworkError))
        ''Echo Dot'')
       = Inr [text_item ''Walmart URL Not Found'', text_item ''Target URL Not Found'']
   \<and> fst (find_product_urls int_ops (Some ''fc-key'')
        (stub ''Echo Dot'' (reply 200 (search_doc (JString ''https://www.walmart.com/ip/1'')))
           (reply 200 (search_doc JNull))
           (Rejected NetworkError))
        ''Echo Dot'')
       = Inr [text_item ''https://www.walmart.com/ip/1'', text_item ''Target URL Not Found'']"
  using falsy_field_gives_sentinel [where ops = int_ops and k = "Some ''fc-key''"
        and productUrl = "''https://example.com/p/123''"
        and fetch = "stub ''Echo Dot'' (Rejected NetworkError) (Rejected NetworkError)
           (reply 200 (extract_doc (JNumber 0)))"
        and response = "\<lparr> status = 200, json = Inr (extract_doc (JNumber 0)) \<rparr>"
        and fx = "[(''data'', JObject [(''price'', JNumber 0)])]"
        and dx = "[(''price'', JNumber 0)]" and n = 0]
    falsy_field_gives_sentinel [where ops = int_ops and k = "Some ''fc-key''"
        and productUrl = "''https://example.com/p/123''"
        and fetch = "stub ''Echo Dot'' (Rejected NetworkError) (Rejected NetworkError)
           (reply 200 (JObject [(''data'', JObject [])]))"
        and response = "\<lparr> status = 200, json = Inr (JObject [(''data'', JObject [])]) \<rparr>"
        and fx = "[(''data'', JObject [])]" and dx = "[]"]
    falsy_field_gives_sentinel [where ops = int_ops and k = "Some ''fc-key''"
        and productName = "''Echo Dot''"
        and fetch = "stub ''Echo Dot'' (reply 200 (search_doc (JString [])))
           (reply 200 (JObject [(''data'', JArray [])]))
           (Rejected NetworkError)"
        and rw = "\<lparr> status = 200, json = Inr (search_doc (JString [])) \<rparr>"
        and rt = "\<lparr> status = 200, json = Inr (JObject [(''data'', JArray [])]) \<rparr>"
        and fw = "[(''data'', JArray [JObject [(''url'', JString [])]])]"
        and ew = "[(''url'', JString [])]" and restw = "[]"
        and dt = "JObject [(''data'', JArray [])]" and tu = JUndefined]
    falsy_field_gives_sentinel [where ops = int_ops and k = "Some ''fc-key''"
        and productName = "''Echo Dot''"
        and fetch = "stub ''Echo Dot''
           (reply 200 (search_doc (JString ''https://www.walmart.com/ip/1'')))
           (reply 200 (search_doc JNull))
           (Rejected NetworkError)"
        and rw = "\<lparr> status = 200,
           json = Inr (search_doc (JString ''https://www.walmart.com/ip/1'')) \<rparr>"
        and rt = "\<lparr> status = 200, json = Inr (search_doc JNull) \<rparr>"
        and ft = "[(''data'', JArray [JObject [(''url'', JNull)]])]"
        and et = "[(''url'', JNull)]" and restt = "[]"
        and dw = "search_doc (JString ''https://www.walmart.com/ip/1'')"
        and wu = "JString ''https://www.walmart.com/ip/1''"]
  by (simp add: key_missing_def stub_simps reply_def ok_def search_doc_def extract_doc_def
      int_ops_simps first_url_def js_or_def text_item_def)

text \<open>
  C10. The gated entry point, when \<^verbatim>\<open>MCP_API_KEY\<close> is not configured and the request has
  neither an \<^verbatim>\<open>api-key\<close> nor an \<^verbatim>\<open>authorization\<close> header: the presented key and the
  expected one are both undefined, so they are equal, and the request is routed, not
  answered with the 401 response, whatever its method.
\<close>

theorem unconfigured_secret_admits_bare_request:
  assumes "MCP_API_KEY env = None"
    and "headers request ''api-key'' = None"
    and "headers request ''authorization'' = None"
  shows "presented_key request = None
       \<and> presented_key request = MCP_API_KEY env
       \<and> fetch_gated request env = route request
       \<and> fetch_gated request env \<noteq> unauthorized"
  using assms
  by (simp add: fetch_gated_def presented_key_def route_def unauthorized_def Let_def)

theorem unconfigured_secret_admits_bare_request_witness:
  "MCP_API_KEY \<lparr> FIRECRAWL_API_KEY = Some ''fc-key'', MCP_API_KEY = None \<rparr> = None
   \<and> headers (post ''/mcp'' Map.empty) ''api-key'' = None
   \<and> headers (post ''/mcp'' Map.empty) ''authorization'' = None
   \<and> method' (post ''/mcp'' Map.empty) \<noteq> ''OPTIONS''
   \<and> fetch_gated (post ''/mcp'' Map.empty)
        \<lparr> FIRECRAWL_API_KEY = Some ''fc-key'', MCP_API_KEY = None \<rparr> = ServeMCP"
  using unconfigured_secret_admits_bare_request [of
        "\<lparr> FIRECRAWL_API_KEY = Some ''fc-key'', MCP_API_KEY = None \<rparr>" "post ''/mcp'' Map.empty"]
  by (simp add: post_def route_def)

end
